theory Spec2Isabelle
  imports Complex_Main
begin

section \<open>Strings and integers of the host language\<close>

text \<open>
  The script is Python. A string is modelled as a list of characters, each character
  standing for one code point below 256 (Latin-1); an integer is an unbounded
  \<^typ>\<open>int\<close>. The functions of this section are the built-ins the script calls:
  \<^verbatim>\<open>str.lower\<close>, \<^verbatim>\<open>str.split\<close>, \<^verbatim>\<open>str.lstrip\<close>, \<^verbatim>\<open>str.rstrip\<close>, \<^verbatim>\<open>str(int)\<close> and
  \<^verbatim>\<open>int(str, base)\<close>.
\<close>

type_synonym color = "int \<times> int \<times> int"



text \<open>\<^verbatim>\<open>s.split(sep)\<close> with a separator of one character: never an empty list.\<close>

fun str_split :: "char \<Rightarrow> string \<Rightarrow> string list" where
  "str_split sep [] = [[]]"
| "str_split sep (c # cs) =
     (if c = sep then [] # str_split sep cs
      else (case str_split sep cs of
              p # ps \<Rightarrow> (c # p) # ps
            | [] \<Rightarrow> [[c]]))"

text \<open>\<^verbatim>\<open>s.lstrip(c)\<close> and \<^verbatim>\<open>s.rstrip(c)\<close> with an argument of one character.\<close>

fun lstrip :: "char \<Rightarrow> string \<Rightarrow> string" where
  "lstrip c [] = []"
| "lstrip c (x # xs) = (if x = c then lstrip c xs else x # xs)"

definition rstrip :: "char \<Rightarrow> string \<Rightarrow> string" where
  "rstrip c s = rev (lstrip c (rev s))"

text \<open>\<^verbatim>\<open>str(n)\<close> for an integer: its decimal digits, with a minus sign when negative.\<close>

fun str_nat :: "nat \<Rightarrow> string" where
  "str_nat n =
     (if n < 10 then [''0123456789'' ! n]
      else str_nat (n div 10) @ [''0123456789'' ! (n mod 10)])"

declare str_nat.simps [simp del]

definition str_int :: "int \<Rightarrow> string" where
  "str_int i = (if i < 0 then CHR ''-'' # str_nat (nat (- i)) else str_nat (nat i))"

subsection \<open>\<^verbatim>\<open>int(s, base)\<close>\<close>

text \<open>
  The characters \<^verbatim>\<open>int\<close> skips at both ends of its argument: tab, line feed, vertical
  tab, form feed, carriage return and space, and the two Latin-1 spaces (next line,
  no-break space). The separators 28 to 31 are not among them.
\<close>

definition int_space :: "char \<Rightarrow> bool" where
  "int_space c =
     (let n = (of_char c :: nat)
      in (9 \<le> n \<and> n \<le> 13) \<or> n = 32 \<or> n = 133 \<or> n = 160)"

definition strip_space :: "string \<Rightarrow> string" where
  "strip_space s = rev (dropWhile int_space (rev (dropWhile int_space s)))"

text \<open>The value of a digit: 0-9, then a-z and A-Z for 10 to 35.\<close>

definition digit_value :: "char \<Rightarrow> nat option" where
  "digit_value c =
     (let n = (of_char c :: nat)
      in if 48 \<le> n \<and> n \<le> 57 then Some (n - 48)
         else if 97 \<le> n \<and> n \<le> 122 then Some (n - 87)
         else if 65 \<le> n \<and> n \<le> 90 then Some (n - 55)
         else None)"

definition digit_of :: "nat \<Rightarrow> char \<Rightarrow> nat option" where
  "digit_of b c =
     (case digit_value c of
        Some d \<Rightarrow> if d < b then Some d else None
      | None \<Rightarrow> None)"

text \<open>An optional sign, after the leading spaces.\<close>

definition split_sign :: "string \<Rightarrow> int \<times> string" where
  "split_sign s =
     (case s of
        [] \<Rightarrow> (1, [])
      | c # cs \<Rightarrow>
          if c = CHR ''+'' then (1, cs)
          else if c = CHR ''-'' then (- 1, cs)
          else (1, s))"

text \<open>The base prefix (\<^verbatim>\<open>0x\<close> for base 16, \<^verbatim>\<open>0o\<close> for 8, \<^verbatim>\<open>0b\<close> for 2), after which one
  underscore is allowed.\<close>

definition skip_prefix :: "nat \<Rightarrow> string \<Rightarrow> string" where
  "skip_prefix b s =
     (case s of
        c0 # c1 # rest \<Rightarrow>
          if c0 = CHR ''0'' \<and>
             ((b = 16 \<and> (c1 = CHR ''x'' \<or> c1 = CHR ''X'')) \<or>
              (b = 8 \<and> (c1 = CHR ''o'' \<or> c1 = CHR ''O'')) \<or>
              (b = 2 \<and> (c1 = CHR ''b'' \<or> c1 = CHR ''B'')))
          then (case rest of
                  u # rest' \<Rightarrow> if u = CHR ''_'' then rest' else rest
                | [] \<Rightarrow> [])
          else s
      | _ \<Rightarrow> s)"

text \<open>
  The digits, with single underscores between them: \<open>scan_digits b cs prev acc n\<close> reads
  the rest \<open>cs\<close> after the character \<open>prev\<close>, with \<open>n\<close> digits read so far and their value
  \<open>acc\<close>. It fails on two underscores in a row, on a final underscore, on a character that
  is no digit of the base, and when there is no digit at all.
\<close>

fun scan_digits :: "nat \<Rightarrow> string \<Rightarrow> char \<Rightarrow> int \<Rightarrow> nat \<Rightarrow> (int \<times> nat) option" where
  "scan_digits b [] prev acc n =
     (if prev = CHR ''_'' \<or> n = 0 then None else Some (acc, n))"
| "scan_digits b (c # cs) prev acc n =
     (if c = CHR ''_''
      then (if prev = CHR ''_'' then None else scan_digits b cs c acc n)
      else (case digit_of b c of
              None \<Rightarrow> None
            | Some d \<Rightarrow> scan_digits b cs c (acc * int b + int d) (Suc n)))"

text \<open>The literal's value and its number of digits; \<open>None\<close> is Python's ValueError.\<close>

definition long_from_string :: "nat \<Rightarrow> string \<Rightarrow> (int \<times> nat) option" where
  "long_from_string b s =
     (let (sign, t) = split_sign (strip_space s);
          u = skip_prefix b t
      in case u of
           [] \<Rightarrow> None
         | c # cs \<Rightarrow>
             if c = CHR ''_'' then None
             else (case scan_digits b u (CHR ''0'') 0 0 of
                     None \<Rightarrow> None
                   | Some (v, n) \<Rightarrow> Some (sign * v, n)))"


text \<open>\<^verbatim>\<open>int(s, 16)\<close>: a base that is a power of two has no limit on the digits.\<close>

definition py_int16 :: "string \<Rightarrow> int option" where
  "py_int16 s = map_option fst (long_from_string 16 s)"

section \<open>The argument parsers of the script\<close>

text \<open>
  The exceptions the script meets. An ArgumentTypeError carries the message the script
  gives it; the messages of the others are the raising library's and are supplied by the
  environment where the script prints them. \<open>OSError\<close> stands for an OSError that is no
  PermissionError, \<open>OtherException\<close> for any class not listed.
\<close>

datatype exn =
    ArgumentTypeError string
  | ValueError
  | ZeroDivisionError
  | KeyError
  | TypeError
  | CalledProcessError
  | PermissionError
  | OSError
  | OtherException



text \<open>\<^verbatim>\<open>hex_str[i:i+2]\<close>.\<close>

definition slice2 :: "string \<Rightarrow> nat \<Rightarrow> string" where
  "slice2 s i = take 2 (drop i s)"

text \<open>\<^verbatim>\<open>hex_to_rgb\<close>: the length check raises ArgumentTypeError with the stripped token in
  its message; a group that \<^verbatim>\<open>int(_, 16)\<close> refuses raises ValueError.\<close>

definition hex_to_rgb :: "string \<Rightarrow> exn + color" where
  "hex_to_rgb token =
     (let stripped = lstrip (CHR ''#'') token;
          hex_str = (if length stripped = 3 then concat (map (\<lambda>c. [c, c]) stripped)
                     else stripped)
      in if length hex_str \<noteq> 6
         then Inl (ArgumentTypeError (''Invalid color format: '' @ hex_str))
         else (case (py_int16 (slice2 hex_str 0), py_int16 (slice2 hex_str 2),
                     py_int16 (slice2 hex_str 4)) of
                 (Some r, Some g, Some b) \<Rightarrow> Inr (r, g, b)
               | _ \<Rightarrow> Inl ValueError))"

section \<open>The script\<close>

subsection \<open>Arguments and canvas size\<close>

definition PRESETS :: "(string \<times> (int \<times> int)) list" where
  "PRESETS =
     [(''1080p'', (1920, 1080)),
      (''720p'', (1280, 720)),
      (''4k'', (3840, 2160))]"

text \<open>The option \<^verbatim>\<open>--preset\<close> is declared with \<^verbatim>\<open>choices=PRESETS.keys()\<close>: the argument parser
  accepts a value only when it is one of the keys.\<close>

definition preset_choice :: "string \<Rightarrow> string option" where
  "preset_choice v = (if v \<in> set (map fst PRESETS) then Some v else None)"

text \<open>The parsed arguments (\<^verbatim>\<open>args\<close>): the two colours and the resolution have been through
  their parsers, an option that was not given is \<open>None\<close>.\<close>

record args =
  args_input :: string
  args_preset :: "string option"
  args_resolution :: "(int \<times> int) option"
  args_font :: string
  args_size :: int
  args_color :: color
  args_bg :: color
  args_braille :: bool
  args_output :: string

text \<open>\<^verbatim>\<open>canvas_w, canvas_h = PRESETS[args.preset] if args.preset else args.resolution\<close>:
  an empty preset string is false, a missing key raises KeyError, and unpacking \<^verbatim>\<open>None\<close>
  raises TypeError (the argument parser excludes all three).\<close>

definition canvas_size :: "args \<Rightarrow> exn + (int \<times> int)" where
  "canvas_size a =
     (let from_resolution =
            (case args_resolution a of Some d \<Rightarrow> Inr d | None \<Rightarrow> Inl TypeError)
      in case args_preset a of
           None \<Rightarrow> from_resolution
         | Some p \<Rightarrow>
             if p = [] then from_resolution
             else (case map_of PRESETS p of
                     Some d \<Rightarrow> Inr d
                   | None \<Rightarrow> Inl KeyError))"

subsection \<open>The environment\<close>

text \<open>
  Everything outside the script is a parameter: the path library and the file system
  (queried before any external command runs), the imaging library, the two external
  commands, and the file the converter leaves behind. \<open>'p\<close> is the type of path
  objects, \<open>'f\<close> the type of loaded fonts. A library call that can raise returns the
  exception's class and text.
\<close>

type_synonym raised = "exn \<times> string"

record ('p, 'f) world =
  Path :: "string \<Rightarrow> 'p"
  path_str :: "'p \<Rightarrow> string"
  path_parent :: "'p \<Rightarrow> 'p"
  path_name :: "'p \<Rightarrow> string"
  joinpath :: "'p \<Rightarrow> string \<Rightarrow> 'p"
  cwd :: 'p
  path_exists :: "'p \<Rightarrow> bool"
  is_file :: "'p \<Rightarrow> bool"
  is_dir :: "'p \<Rightarrow> bool"
  access_W_OK :: "'p \<Rightarrow> bool"
  truetype :: "string \<Rightarrow> int \<Rightarrow> string + 'f"
  image_new :: "int \<times> int \<Rightarrow> color \<Rightarrow> raised option"
  textbbox :: "'f \<Rightarrow> int \<times> int \<times> int \<times> int"
  mkdtemp :: string
  subprocess_run :: "string list \<Rightarrow> raised option"
  read_text :: "'p \<Rightarrow> raised + string"
  image_save :: "'p \<Rightarrow> raised option"

text \<open>What a run does that can be observed: the lines printed on the two streams, the
  commands started, the \<^verbatim>\<open>draw.text\<close> calls, the path the image was saved at, and how
  the process ended (\<open>Uncaught\<close>: a traceback).\<close>

record 'f draw_call =
  xy :: "int \<times> int"
  text_drawn :: string
  font_used :: 'f
  fill :: color

datatype status = Running | Exit nat | Uncaught exn

record ('p, 'f) run =
  stderr :: "string list"
  stdout :: "string list"
  commands :: "string list list"
  drawn :: "'f draw_call list"
  saved :: "'p option"
  status :: status

definition start :: "('p, 'f) run" where
  "start = \<lparr>stderr = [], stdout = [], commands = [], drawn = [], saved = None,
            status = Running\<rparr>"

text \<open>\<^verbatim>\<open>print(msg, file=sys.stderr)\<close>; the same followed by \<^verbatim>\<open>sys.exit(1)\<close>; an exception
  nothing catches.\<close>

definition warn :: "string \<Rightarrow> ('p, 'f) run \<Rightarrow> ('p, 'f) run" where
  "warn msg r = r\<lparr>stderr := stderr r @ [msg]\<rparr>"

definition die :: "string \<Rightarrow> ('p, 'f) run \<Rightarrow> ('p, 'f) run" where
  "die msg r = r\<lparr>stderr := stderr r @ [msg], status := Exit 1\<rparr>"

definition uncaught :: "exn \<Rightarrow> ('p, 'f) run \<Rightarrow> ('p, 'f) run" where
  "uncaught e r = r\<lparr>status := Uncaught e\<rparr>"

subsection \<open>Grid fitting and the two commands\<close>

text \<open>\<^verbatim>\<open>f'{canvas_w // char_w},{canvas_h // char_h}'\<close>: floor division, which raises
  ZeroDivisionError on a zero divisor.\<close>

definition floordiv :: "int \<Rightarrow> int \<Rightarrow> exn + int" where
  "floordiv a b = (if b = 0 then Inl ZeroDivisionError else Inr (a div b))"

definition grid_dimensions :: "int \<Rightarrow> int \<Rightarrow> int \<Rightarrow> int \<Rightarrow> exn + (int \<times> int)" where
  "grid_dimensions canvas_w canvas_h char_w char_h =
     (case floordiv canvas_w char_w of
        Inl e \<Rightarrow> Inl e
      | Inr cols \<Rightarrow>
          (case floordiv canvas_h char_h of
             Inl e \<Rightarrow> Inl e
           | Inr rows \<Rightarrow> Inr (cols, rows)))"

definition resize_cmd :: "args \<Rightarrow> int \<Rightarrow> int \<Rightarrow> string \<Rightarrow> string list" where
  "resize_cmd a canvas_w canvas_h cropped =
     [''magick'', args_input a,
      ''-resize'', str_int canvas_w @ ''x'' @ str_int canvas_h @ ''^'',
      ''-gravity'', ''center'',
      ''-extent'', str_int canvas_w @ ''x'' @ str_int canvas_h,
      cropped]"

definition ascii_cmd ::
  "args \<Rightarrow> int \<Rightarrow> int \<Rightarrow> int \<Rightarrow> int \<Rightarrow> string \<Rightarrow> string \<Rightarrow> exn + string list" where
  "ascii_cmd a canvas_w canvas_h char_w char_h tmpdir cropped =
     (case grid_dimensions canvas_w canvas_h char_w char_h of
        Inl e \<Rightarrow> Inl e
      | Inr (cols, rows) \<Rightarrow>
          Inr ([''ascii-image-converter'', ''--only-save'',
                ''--dimensions'', str_int cols @ '','' @ str_int rows,
                ''--save-txt'', tmpdir, cropped]
               @ (if args_braille a then [''--braille'', ''--dither''] else [])))"

subsection \<open>Drawing\<close>

text \<open>\<^verbatim>\<open>for i, line in enumerate(lines): draw.text((0, i * char_h), line, font=font, fill=fg)\<close>,
  as a loop over the lines left, with the index of the next line and the calls made so
  far.\<close>

fun draw_lines ::
  "int \<Rightarrow> 'f \<Rightarrow> color \<Rightarrow> nat \<Rightarrow> string list \<Rightarrow> 'f draw_call list \<Rightarrow> 'f draw_call list" where
  "draw_lines char_h font fg i [] calls = calls"
| "draw_lines char_h font fg i (line # rest) calls =
     draw_lines char_h font fg (Suc i) rest
       (calls @ [\<lparr>xy = (0, int i * char_h), text_drawn = line, font_used = font, fill = fg\<rparr>])"

text \<open>\<^verbatim>\<open>txt_path.read_text().rstrip('\n').split('\n')\<close>.\<close>

definition text_lines :: "string \<Rightarrow> string list" where
  "text_lines content = str_split (CHR 0x0A) (rstrip (CHR 0x0A) content)"

subsection \<open>The run\<close>

text \<open>Saving: PermissionError, ValueError and any other OSError each print their message
  and exit with status 1; any other exception is not caught.\<close>

definition save_image :: "('p, 'f) world \<Rightarrow> 'p \<Rightarrow> ('p, 'f) run \<Rightarrow> ('p, 'f) run" where
  "save_image w output_path r =
     (case image_save w output_path of
        None \<Rightarrow>
          r\<lparr>saved := Some output_path,
            stdout := stdout r @ [''Successfully saved at '' @ path_str w output_path],
            status := Exit 0\<rparr>
      | Some (cls, e) \<Rightarrow>
          if cls = PermissionError
          then die (''Save error: '' @ e @ [CHR 0x0A]
                    @ ''Make sure you have write permissions for ''
                    @ path_str w output_path) r
          else if cls = ValueError
          then die (''File format error: '' @ e
                    @ ''. Make sure the filename ends with .png'') r
          else if cls = OSError
          then die (''Error saving file '' @ path_str w output_path @ '': '' @ e) r
          else uncaught cls r)"

text \<open>The two external commands, run with \<^verbatim>\<open>check=True\<close>: a CalledProcessError of either
  prints its message and exits with status 1, and the second command is not started
  when the first fails; any other exception (a missing executable) is not caught.\<close>

definition run_commands ::
  "('p, 'f) world \<Rightarrow> string list \<Rightarrow> string list \<Rightarrow> ('p, 'f) run \<Rightarrow> ('p, 'f) run" where
  "run_commands w resize ascii r =
     (let r1 = r\<lparr>commands := commands r @ [resize]\<rparr>
      in case subprocess_run w resize of
           Some (cls, e) \<Rightarrow>
             if cls = CalledProcessError then die (''Command execution error: '' @ e) r1
             else uncaught cls r1
         | None \<Rightarrow>
             (let r2 = r1\<lparr>commands := commands r1 @ [ascii]\<rparr>
              in case subprocess_run w ascii of
                   Some (cls, e) \<Rightarrow>
                     if cls = CalledProcessError
                     then die (''Command execution error: '' @ e) r2
                     else uncaught cls r2
                 | None \<Rightarrow> r2))"

text \<open>After the two commands (lines 127 to 146 of the script): the converter's text
  file is read and split into lines, the lines are drawn, the image is saved.\<close>

definition rasterize ::
  "('p, 'f) world \<Rightarrow> args \<Rightarrow> int \<Rightarrow> 'f \<Rightarrow> 'p \<Rightarrow> ('p, 'f) run \<Rightarrow> ('p, 'f) run" where
  "rasterize w a char_h font output_path r =
     (let fg = args_color a;
          txt_path = joinpath w (Path w (mkdtemp w)) ''cropped-ascii-art.txt''
      in case read_text w txt_path of
           Inl (cls, e) \<Rightarrow> uncaught cls r
         | Inr content \<Rightarrow>
             (let lines = text_lines content;
                  r' = r\<lparr>drawn := draw_lines char_h font fg 0 lines []\<rparr>
              in save_image w output_path r'))"

text \<open>The body of the \<^verbatim>\<open>try\<close> (lines 120 to 125), then \<open>rasterize\<close> when neither command
  ended the run.\<close>

definition convert_and_draw ::
  "('p, 'f) world \<Rightarrow> args \<Rightarrow> int \<Rightarrow> 'f \<Rightarrow> 'p \<Rightarrow> string list \<Rightarrow> string list \<Rightarrow>
   ('p, 'f) run \<Rightarrow> ('p, 'f) run" where
  "convert_and_draw w a char_h font output_path resize ascii r =
     (let r1 = run_commands w resize ascii r
      in if status r1 \<noteq> Running then r1
         else rasterize w a char_h font output_path r1)"

text \<open>From the check of the output path on (lines 92 to 118 of the script), with the
  output path and the run so far, then \<open>convert_and_draw\<close>.\<close>

definition render ::
  "('p, 'f) world \<Rightarrow> args \<Rightarrow> int \<Rightarrow> int \<Rightarrow> 'p \<Rightarrow> ('p, 'f) run \<Rightarrow> ('p, 'f) run" where
  "render w a canvas_w canvas_h output_path r =
     (if path_exists w output_path \<and> is_dir w output_path
      then die (''Invalid path: '' @ path_str w output_path @ '' is a directory'') r
      else case truetype w (args_font a) (args_size a) of
        Inl e \<Rightarrow> die (''Failed to load font '' @ args_font a @ '': '' @ e) r
      | Inr font \<Rightarrow>
         (let bg_color = args_bg a
          in case image_new w (canvas_w, canvas_h) bg_color of
            Some (cls, e) \<Rightarrow> uncaught cls r
          | None \<Rightarrow>
             (let (x0, y0, x1, y1) = textbbox w font;
                  char_w = x1 - x0;
                  char_h = y1 - y0;
                  tmpdir = mkdtemp w;
                  cropped = path_str w (joinpath w (Path w tmpdir) ''cropped'');
                  resize = resize_cmd a canvas_w canvas_h cropped
              in case ascii_cmd a canvas_w canvas_h char_w char_h tmpdir cropped of
                Inl e \<Rightarrow> uncaught e r
              | Inr ascii \<Rightarrow>
                  convert_and_draw w a char_h font output_path resize ascii r)))"

text \<open>The script from its first check to the choice of the output path (lines 70 to
  91), then \<open>render\<close>. In \<^verbatim>\<open>output_path.parent or Path('.')\<close> the alternative is never
  taken, a path object being true.\<close>

definition fallback_path :: "('p, 'f) world \<Rightarrow> 'p \<Rightarrow> 'p" where
  "fallback_path w output_path = joinpath w (cwd w) (path_name w output_path)"

definition fallback_warning :: "('p, 'f) world \<Rightarrow> 'p \<Rightarrow> string" where
  "fallback_warning w output_path =
     ''No write permission in '' @ path_str w (path_parent w output_path)
     @ '', saving to current directory instead: ''
     @ path_str w (fallback_path w output_path)"

definition main :: "('p, 'f) world \<Rightarrow> args \<Rightarrow> ('p, 'f) run" where
  "main w a =
     (let input_path = Path w (args_input a)
      in if \<not> path_exists w input_path
         then die (''Input ASCII art file '' @ path_str w input_path @ '' not found'') start
         else if \<not> is_file w input_path
         then die (path_str w input_path @ '' is not a file'') start
         else case canvas_size a of
           Inl e \<Rightarrow> uncaught e start
         | Inr (canvas_w, canvas_h) \<Rightarrow>
            (let output_path = Path w (args_output a);
                 parent = path_parent w output_path
             in if \<not> path_exists w parent
                then die (''Output directory '' @ path_str w parent @ '' does not exist'')
                       start
                else if \<not> access_W_OK w parent
                then render w a canvas_w canvas_h (fallback_path w output_path)
                       (warn (fallback_warning w output_path) start)
                else render w a canvas_w canvas_h output_path start))"

subsection \<open>A sample environment\<close>

text \<open>
  An environment and arguments to run the script on: the input file \<^verbatim>\<open>art.txt\<close> exists in
  the current directory, which is writable; relative paths without directory part are
  their own names and have the parent \<^verbatim>\<open>.\<close>; the font measures 20 by 25 pixels; both
  commands succeed and the converter leaves two lines of text; saving succeeds. The
  arguments ask for the custom resolution 100x50.
\<close>

definition sample_world :: "(string, nat) world" where
  "sample_world =
     \<lparr>Path = (\<lambda>s. s),
      path_str = (\<lambda>p. p),
      path_parent = (\<lambda>p. ''.''),
      path_name = (\<lambda>p. p),
      joinpath = (\<lambda>d n. d @ ''/'' @ n),
      cwd = ''/home/user'',
      path_exists = (\<lambda>p. p = ''art.txt'' \<or> p = ''.''),
      is_file = (\<lambda>p. p = ''art.txt''),
      is_dir = (\<lambda>p. p = ''.''),
      access_W_OK = (\<lambda>p. True),
      truetype = (\<lambda>name pts. Inr (nat pts)),
      image_new = (\<lambda>dims c. None),
      textbbox = (\<lambda>f. (0, 0, 20, 25)),
      mkdtemp = ''/tmp/t'',
      subprocess_run = (\<lambda>cmd. None),
      read_text = (\<lambda>p. Inr (''ab'' @ [CHR 0x0A] @ ''cd'' @ [CHR 0x0A])),
      image_save = (\<lambda>p. None)\<rparr>"

definition sample_args :: args where
  "sample_args =
     \<lparr>args_input = ''art.txt'',
      args_preset = None,
      args_resolution = Some (100, 50),
      args_font = ''TerminusTTF.ttf'',
      args_size = 12,
      args_color = (255, 255, 255),
      args_bg = (0, 0, 0),
      args_braille = False,
      args_output = ''out.png''\<rparr>"

section \<open>Properties\<close>

subsection \<open>Digits\<close>

lemma digit_of_plain:
  assumes "digit_of b c = Some d"
  shows "\<not> int_space c" "c \<noteq> CHR ''+''" "c \<noteq> CHR ''-''" "c \<noteq> CHR ''_''" "c \<noteq> CHR ''#''"
  using assms
  by (auto simp: digit_of_def digit_value_def int_space_def Let_def
           split: if_splits option.splits)

lemma digit_of_not_x: "digit_of 16 b = Some y \<Longrightarrow> b \<noteq> CHR ''x'' \<and> b \<noteq> CHR ''X''"
  by (auto simp: digit_of_def digit_value_def Let_def split: if_splits option.splits)

lemma py_int16_digits:
  assumes "digit_of 16 a = Some x" "digit_of 16 b = Some y"
    and "\<not> (a = CHR ''0'' \<and> (b = CHR ''x'' \<or> b = CHR ''X''))"
  shows "py_int16 [a, b] = Some (16 * int x + int y)"
  using assms digit_of_plain[OF assms(1)] digit_of_plain[OF assms(2)]
  by (simp add: py_int16_def long_from_string_def strip_space_def split_sign_def
        skip_prefix_def)

subsection \<open>The colour parser\<close>

text \<open>
  C6. A token that is three hexadecimal digits once the leading \<^verbatim>\<open>#\<close> characters are
  stripped parses to the same colour as the six-digit token that doubles each digit in
  place; both parse, to 17 times the value of each digit (\<^verbatim>\<open>abc\<close> and \<^verbatim>\<open>aabbcc\<close> both give
  (170, 187, 204)).
\<close>

theorem shorthand_doubling:
  assumes "lstrip (CHR ''#'') token = [a, b, c]"
    and "digit_of 16 a = Some x" and "digit_of 16 b = Some y" and "digit_of 16 c = Some z"
  shows "hex_to_rgb token = hex_to_rgb [a, a, b, b, c, c] \<and>
         hex_to_rgb token = Inr (17 * int x, 17 * int y, 17 * int z)"
proof -
  have aa: "py_int16 [a, a] = Some (17 * int x)"
    using py_int16_digits[OF assms(2) assms(2)] digit_of_not_x[OF assms(2)] by simp
  have bb: "py_int16 [b, b] = Some (17 * int y)"
    using py_int16_digits[OF assms(3) assms(3)] digit_of_not_x[OF assms(3)] by simp
  have cc: "py_int16 [c, c] = Some (17 * int z)"
    using py_int16_digits[OF assms(4) assms(4)] digit_of_not_x[OF assms(4)] by simp
  have l: "hex_to_rgb token = Inr (17 * int x, 17 * int y, 17 * int z)"
    using assms(1) aa bb cc by (simp add: hex_to_rgb_def slice2_def)
  have "a \<noteq> CHR ''#''" using digit_of_plain(5)[OF assms(2)] .
  then have r: "hex_to_rgb [a, a, b, b, c, c] = Inr (17 * int x, 17 * int y, 17 * int z)"
    using aa bb cc by (simp add: hex_to_rgb_def slice2_def)
  show ?thesis using l r by simp
qed

theorem shorthand_doubling_witness:
  "hex_to_rgb ''abc'' = hex_to_rgb ''aabbcc'' \<and> hex_to_rgb ''abc'' = Inr (170, 187, 204)"
proof -
  have "hex_to_rgb ''abc'' = hex_to_rgb ''aabbcc'' \<and>
        hex_to_rgb ''abc'' = Inr (17 * int 10, 17 * int 11, 17 * int 12)"
    by (rule shorthand_doubling[of "''abc''" "CHR ''a''" "CHR ''b''" "CHR ''c''" 10 11 12])
       (simp_all add: digit_of_def digit_value_def)
  then show ?thesis by auto
qed

text \<open>
  C7. A token whose length, once the leading \<^verbatim>\<open>#\<close> characters are stripped, is neither 3
  nor 6 makes \<^verbatim>\<open>hex_to_rgb\<close> raise the ArgumentTypeError whose message carries the
  stripped token; no colour is returned.
\<close>

theorem wrong_length_invalid_color:
  assumes "length (lstrip (CHR ''#'') token) \<noteq> 3"
    and "length (lstrip (CHR ''#'') token) \<noteq> 6"
  shows "hex_to_rgb token =
           Inl (ArgumentTypeError (''Invalid color format: '' @ lstrip (CHR ''#'') token))"
  using assms by (simp add: hex_to_rgb_def)

theorem wrong_length_invalid_color_witness:
  "length (lstrip (CHR ''#'') ''#abcd'') \<noteq> 3 \<and> length (lstrip (CHR ''#'') ''#abcd'') \<noteq> 6 \<and>
   hex_to_rgb ''#abcd'' = Inl (ArgumentTypeError ''Invalid color format: abcd'')"
  using wrong_length_invalid_color[of "''#abcd''"] by simp

subsection \<open>Presets\<close>

text \<open>
  C8. The preset table maps \<^verbatim>\<open>1080p\<close> to (1920, 1080), \<^verbatim>\<open>720p\<close> to (1280, 720) and \<^verbatim>\<open>4k\<close> to
  (3840, 2160), these pairs are the canvas size of a run given the preset, and the
  argument parser accepts exactly these three names.
\<close>

theorem presets_exact:
  "canvas_size (a\<lparr>args_preset := Some ''1080p''\<rparr>) = Inr (1920, 1080) \<and>
   canvas_size (a\<lparr>args_preset := Some ''720p''\<rparr>) = Inr (1280, 720) \<and>
   canvas_size (a\<lparr>args_preset := Some ''4k''\<rparr>) = Inr (3840, 2160) \<and>
   (preset_choice v = Some v) = (v \<in> {''1080p'', ''720p'', ''4k''}) \<and>
   (preset_choice v = None) = (v \<notin> {''1080p'', ''720p'', ''4k''}) \<and>
   dom (map_of PRESETS) = {''1080p'', ''720p'', ''4k''}"
  by (auto simp: PRESETS_def preset_choice_def canvas_size_def dom_map_of_conv_image_fst)

subsection \<open>Splitting and lower-casing\<close>








subsection \<open>Decimal rendering\<close>








subsection \<open>Decimal literals read back by \<^verbatim>\<open>int\<close>\<close>















subsection \<open>The resolution parser\<close>















subsection \<open>Groups of two characters in base 16\<close>








subsection \<open>What each stage of a run leaves behind\<close>

lemma die_simps:
  "stderr (die m r) = stderr r @ [m]" "status (die m r) = Exit 1"
  "commands (die m r) = commands r" "stdout (die m r) = stdout r"
  "drawn (die m r) = drawn r" "saved (die m r) = saved r"
  by (simp_all add: die_def)

lemma uncaught_simps:
  "stderr (uncaught e r) = stderr r" "status (uncaught e r) = Uncaught e"
  "commands (uncaught e r) = commands r" "stdout (uncaught e r) = stdout r"
  "drawn (uncaught e r) = drawn r" "saved (uncaught e r) = saved r"
  by (simp_all add: uncaught_def)

lemma warn_simps:
  "stderr (warn m r) = stderr r @ [m]" "status (warn m r) = status r"
  "commands (warn m r) = commands r" "stdout (warn m r) = stdout r"
  "drawn (warn m r) = drawn r" "saved (warn m r) = saved r"
  by (simp_all add: warn_def)

lemma start_simps:
  "stderr start = []" "status start = Running" "commands start = []" "stdout start = []"
  "drawn start = []" "saved start = None"
  by (simp_all add: start_def)


lemma save_image_commands: "commands (save_image w p r) = commands r"
  by (auto simp: save_image_def die_simps uncaught_simps split: option.splits prod.splits)


lemma run_commands_commands:
  "commands (run_commands w c1 c2 r) = commands r @ [c1] \<or>
   commands (run_commands w c1 c2 r) = commands r @ [c1, c2]"
  by (auto simp: run_commands_def die_simps uncaught_simps Let_def split: option.splits prod.splits)


lemma rasterize_commands: "commands (rasterize w a h f p r) = commands r"
  by (auto simp: rasterize_def Let_def uncaught_simps save_image_commands
           split: sum.splits prod.splits)


lemma convert_commands:
  "commands (convert_and_draw w a h f p c1 c2 r) = commands r @ [c1] \<or>
   commands (convert_and_draw w a h f p c1 c2 r) = commands r @ [c1, c2]"
  using run_commands_commands[of w c1 c2 r]
  by (auto simp: convert_and_draw_def Let_def rasterize_commands)


subsection \<open>The drawing loop\<close>

lemma draw_lines_calls:
  "draw_lines char_h font fg i lines calls =
     calls @ map (\<lambda>k. \<lparr>xy = (0, int (i + k) * char_h), text_drawn = lines ! k,
                        font_used = font, fill = fg\<rparr>) [0..<length lines]"
proof (induction lines arbitrary: i calls)
  case Nil
  then show ?case by simp
next
  case (Cons line rest)
  have "[0..<length (line # rest)] = 0 # map Suc [0..<length rest]"
    by (simp add: upt_conv_Cons map_Suc_upt del: upt_Suc)
  then show ?case
    using Cons.IH[of "Suc i"] by (simp add: comp_def del: upt_Suc)
qed

lemma save_image_drawn: "drawn (save_image w p r) = drawn r"
  by (auto simp: save_image_def die_simps uncaught_simps split: option.splits prod.splits)

text \<open>
  C2. For a text grid of R lines the loop makes exactly R \<^verbatim>\<open>draw.text\<close> calls, in row
  order; the call for row i (from 0) draws that line at x = 0, y = i * cell height, with
  the loaded font and the foreground colour, so the positions used are exactly
  (0, i * cell height) for i below R. In a run, the grid is the lines of the text the
  converter left, and these calls are all the drawing the run does.
\<close>

theorem rasterizer_draws_each_row:
  "draw_lines char_h font fg 0 lines [] =
     map (\<lambda>i. \<lparr>xy = (0, int i * char_h), text_drawn = lines ! i,
                 font_used = font, fill = fg\<rparr>) [0..<length lines]
   \<and> length (draw_lines char_h font fg 0 lines []) = length lines
   \<and> set (map xy (draw_lines char_h font fg 0 lines [])) =
       (\<lambda>i. (0, int i * char_h)) ` {0..<length lines}
   \<and> (read_text w (joinpath w (Path w (mkdtemp w)) ''cropped-ascii-art.txt'') = Inr content
        \<longrightarrow>
        drawn (rasterize w a char_h font out r) =
          map (\<lambda>i. \<lparr>xy = (0, int i * char_h), text_drawn = text_lines content ! i,
                      font_used = font, fill = args_color a\<rparr>)
              [0..<length (text_lines content)])"
  by (simp add: draw_lines_calls comp_def image_image rasterize_def Let_def save_image_drawn)

theorem rasterizer_draws_each_row_witness:
  "read_text sample_world ''/tmp/t/cropped-ascii-art.txt''
     = Inr (''ab'' @ [CHR 0x0A] @ ''cd'' @ [CHR 0x0A]) \<and>
   text_lines (''ab'' @ [CHR 0x0A] @ ''cd'' @ [CHR 0x0A]) = [''ab'', ''cd''] \<and>
   drawn (rasterize sample_world sample_args 25 12 ''out.png'' start) =
     [\<lparr>xy = (0, 0), text_drawn = ''ab'', font_used = 12, fill = (255, 255, 255)\<rparr>,
      \<lparr>xy = (0, 25), text_drawn = ''cd'', font_used = 12, fill = (255, 255, 255)\<rparr>]"
proof -
  have t: "text_lines (''ab'' @ [CHR 0x0A] @ ''cd'' @ [CHR 0x0A]) = [''ab'', ''cd'']"
    by (simp add: text_lines_def rstrip_def)
  have rd: "read_text sample_world
              (joinpath sample_world (Path sample_world (mkdtemp sample_world))
                 ''cropped-ascii-art.txt'')
            = Inr (''ab'' @ [CHR 0x0A] @ ''cd'' @ [CHR 0x0A])"
       "read_text sample_world ''/tmp/t/cropped-ascii-art.txt''
            = Inr (''ab'' @ [CHR 0x0A] @ ''cd'' @ [CHR 0x0A])"
    by (simp_all add: sample_world_def)
  have "drawn (rasterize sample_world sample_args 25 12 ''out.png'' start) =
          map (\<lambda>i. \<lparr>xy = (0, int i * 25),
                      text_drawn = text_lines (''ab'' @ [CHR 0x0A] @ ''cd'' @ [CHR 0x0A]) ! i,
                      font_used = 12, fill = args_color sample_args\<rparr>)
              [0..<length (text_lines (''ab'' @ [CHR 0x0A] @ ''cd'' @ [CHR 0x0A]))]"
    using rasterizer_draws_each_row[where w = sample_world and a = sample_args
        and char_h = 25 and font = 12 and out = "''out.png''" and r = start
        and content = "''ab'' @ [CHR 0x0A] @ ''cd'' @ [CHR 0x0A]"] rd(1)
    by blast
  then have "drawn (rasterize sample_world sample_args 25 12 ''out.png'' start) =
     [\<lparr>xy = (0, 0), text_drawn = ''ab'', font_used = 12, fill = (255, 255, 255)\<rparr>,
      \<lparr>xy = (0, 25), text_drawn = ''cd'', font_used = 12, fill = (255, 255, 255)\<rparr>]"
    unfolding t by (simp add: sample_args_def upt_rec[of 0] upt_rec[of 1])
  with t rd(2) show ?thesis by blast
qed

subsection \<open>The commands of a run\<close>

lemma grid_dimensions_positive:
  assumes "char_w \<noteq> 0" "char_h \<noteq> 0"
  shows "grid_dimensions cw ch char_w char_h = Inr (cw div char_w, ch div char_h)"
  using assms by (simp add: grid_dimensions_def floordiv_def)

lemma ascii_cmd_positive:
  assumes "char_w \<noteq> 0" "char_h \<noteq> 0"
  shows "ascii_cmd a cw ch char_w char_h tmpdir cropped =
           Inr ([''ascii-image-converter'', ''--only-save'', ''--dimensions'',
                 str_int (cw div char_w) @ '','' @ str_int (ch div char_h),
                 ''--save-txt'', tmpdir, cropped]
                @ (if args_braille a then [''--braille'', ''--dither''] else []))"
  using assms by (simp add: ascii_cmd_def grid_dimensions_positive)

lemma render_measured:
  assumes "\<not> (path_exists w out \<and> is_dir w out)"
    and "truetype w (args_font a) (args_size a) = Inr font"
    and "image_new w (cw, ch) (args_bg a) = None"
    and "textbbox w font = (x0, y0, x1, y1)"
  shows "render w a cw ch out r =
           (case ascii_cmd a cw ch (x1 - x0) (y1 - y0) (mkdtemp w)
                   (path_str w (joinpath w (Path w (mkdtemp w)) ''cropped'')) of
              Inl e \<Rightarrow> uncaught e r
            | Inr ascii \<Rightarrow>
                convert_and_draw w a (y1 - y0) font out
                  (resize_cmd a cw ch (path_str w (joinpath w (Path w (mkdtemp w)) ''cropped'')))
                  ascii r)"
  using assms by (auto simp: render_def Let_def)

lemma render_converter_command:
  assumes "commands (render w a cw ch out r) = commands r @ [c1, c2]"
  shows "\<exists>font x0 y0 x1 y1.
           truetype w (args_font a) (args_size a) = Inr font \<and>
           textbbox w font = (x0, y0, x1, y1) \<and>
           ascii_cmd a cw ch (x1 - x0) (y1 - y0) (mkdtemp w)
             (path_str w (joinpath w (Path w (mkdtemp w)) ''cropped'')) = Inr c2"
proof (cases "path_exists w out \<and> is_dir w out")
  case True
  with assms show ?thesis by (simp add: render_def die_simps)
next
  case nodir: False
  show ?thesis
  proof (cases "truetype w (args_font a) (args_size a)")
    case (Inl e)
    with assms nodir show ?thesis by (auto simp: render_def die_simps)
  next
    case (Inr font)
    show ?thesis
    proof (cases "image_new w (cw, ch) (args_bg a)")
      case (Some x)
      with assms nodir Inr show ?thesis
        by (cases x) (auto simp: render_def Let_def uncaught_simps)
    next
      case None
      obtain x0 y0 x1 y1 where bb: "textbbox w font = (x0, y0, x1, y1)"
        by (metis prod_cases4)
      note m = render_measured[OF nodir Inr None bb, of r]
      show ?thesis
      proof (cases "ascii_cmd a cw ch (x1 - x0) (y1 - y0) (mkdtemp w)
                      (path_str w (joinpath w (Path w (mkdtemp w)) ''cropped''))")
        case (Inl e)
        with assms m show ?thesis by (simp add: uncaught_simps)
      next
        case ascii: (Inr cmd)
        have "commands (render w a cw ch out r) =
                commands r @ [resize_cmd a cw ch
                   (path_str w (joinpath w (Path w (mkdtemp w)) ''cropped''))] \<or>
              commands (render w a cw ch out r) =
                commands r @ [resize_cmd a cw ch
                   (path_str w (joinpath w (Path w (mkdtemp w)) ''cropped'')), cmd]"
          using convert_commands[of w a "y1 - y0" font out _ cmd r] m ascii by simp
        with assms have "c2 = cmd" by auto
        with Inr bb ascii show ?thesis by blast
      qed
    qed
  qed
qed

lemma main_converter_command:
  assumes "commands (main w a) = [c1, c2]"
  shows "\<exists>cw ch font x0 y0 x1 y1.
           canvas_size a = Inr (cw, ch) \<and>
           truetype w (args_font a) (args_size a) = Inr font \<and>
           textbbox w font = (x0, y0, x1, y1) \<and>
           ascii_cmd a cw ch (x1 - x0) (y1 - y0) (mkdtemp w)
             (path_str w (joinpath w (Path w (mkdtemp w)) ''cropped'')) = Inr c2"
proof (cases "canvas_size a")
  case (Inl e)
  with assms show ?thesis
    by (simp add: main_def Let_def die_simps uncaught_simps start_simps split: if_splits)
next
  case (Inr d)
  obtain cw ch where d: "d = (cw, ch)" by (cases d)
  define out where "out = Path w (args_output a)"
  from assms Inr d
  have "commands (render w a cw ch (fallback_path w out) (warn (fallback_warning w out) start))
          = [c1, c2] \<or>
        commands (render w a cw ch out start) = [c1, c2]"
    by (simp add: main_def Let_def die_simps start_simps out_def split: if_splits)
  then have "\<exists>font x0 y0 x1 y1.
           truetype w (args_font a) (args_size a) = Inr font \<and>
           textbbox w font = (x0, y0, x1, y1) \<and>
           ascii_cmd a cw ch (x1 - x0) (y1 - y0) (mkdtemp w)
             (path_str w (joinpath w (Path w (mkdtemp w)) ''cropped'')) = Inr c2"
  proof
    assume c: "commands (render w a cw ch (fallback_path w out)
                 (warn (fallback_warning w out) start)) = [c1, c2]"
    show ?thesis
      by (rule render_converter_command[of w a cw ch "fallback_path w out"
            "warn (fallback_warning w out) start" c1 c2])
         (simp add: c warn_simps start_simps)
  next
    assume c: "commands (render w a cw ch out start) = [c1, c2]"
    show ?thesis
      by (rule render_converter_command[of w a cw ch out start c1 c2])
         (simp add: c start_simps)
  qed
  with Inr d show ?thesis by blast
qed

subsection \<open>Grid fitting and the output path\<close>

lemmas run_defs = main_def render_def convert_and_draw_def rasterize_def run_commands_def
  save_image_def ascii_cmd_def resize_cmd_def grid_dimensions_def floordiv_def canvas_size_def
  start_def warn_def die_def uncaught_def fallback_path_def fallback_warning_def
  text_lines_def rstrip_def Let_def

text \<open>
  C1. With both cell dimensions positive, grid fitting returns the pair of floors
  (floor(canvas_w / char_w), floor(canvas_h / char_h)) of the real quotients, and the
  converter's command carries that pair after \<^verbatim>\<open>--dimensions\<close>; whenever a run starts both
  commands, the second is that command for the canvas size and the measured cell. For
  the canvas 100x50 and the cell 20x25 the grid is 5 columns by 2 rows.
\<close>

theorem grid_size_passed_to_converter:
  "(0 < char_w \<and> 0 < char_h \<longrightarrow>
      grid_dimensions canvas_w canvas_h char_w char_h =
        Inr (\<lfloor>real_of_int canvas_w / real_of_int char_w\<rfloor>,
             \<lfloor>real_of_int canvas_h / real_of_int char_h\<rfloor>) \<and>
      ascii_cmd a canvas_w canvas_h char_w char_h tmpdir cropped =
        Inr ([''ascii-image-converter'', ''--only-save'', ''--dimensions'',
              str_int \<lfloor>real_of_int canvas_w / real_of_int char_w\<rfloor> @ '','' @
              str_int \<lfloor>real_of_int canvas_h / real_of_int char_h\<rfloor>,
              ''--save-txt'', tmpdir, cropped]
             @ (if args_braille a then [''--braille'', ''--dither''] else []))) \<and>
   (commands (main w a) = [c1, c2] \<and> canvas_size a = Inr (canvas_w, canvas_h) \<and>
    truetype w (args_font a) (args_size a) = Inr font \<and>
    textbbox w font = (x0, y0, x1, y1) \<and> 0 < x1 - x0 \<and> 0 < y1 - y0 \<longrightarrow>
      c2 = [''ascii-image-converter'', ''--only-save'', ''--dimensions'',
            str_int \<lfloor>real_of_int canvas_w / real_of_int (x1 - x0)\<rfloor> @ '','' @
            str_int \<lfloor>real_of_int canvas_h / real_of_int (y1 - y0)\<rfloor>,
            ''--save-txt'', mkdtemp w,
            path_str w (joinpath w (Path w (mkdtemp w)) ''cropped'')]
           @ (if args_braille a then [''--braille'', ''--dither''] else [])) \<and>
   grid_dimensions 100 50 20 25 = Inr (5, 2)"
proof (intro conjI impI)
  assume "0 < char_w \<and> 0 < char_h"
  then have nz: "char_w \<noteq> 0" "char_h \<noteq> 0" by simp_all
  show "grid_dimensions canvas_w canvas_h char_w char_h =
        Inr (\<lfloor>real_of_int canvas_w / real_of_int char_w\<rfloor>,
             \<lfloor>real_of_int canvas_h / real_of_int char_h\<rfloor>)"
    by (simp add: grid_dimensions_positive[OF nz] floor_divide_of_int_eq)
  show "ascii_cmd a canvas_w canvas_h char_w char_h tmpdir cropped =
        Inr ([''ascii-image-converter'', ''--only-save'', ''--dimensions'',
              str_int \<lfloor>real_of_int canvas_w / real_of_int char_w\<rfloor> @ '','' @
              str_int \<lfloor>real_of_int canvas_h / real_of_int char_h\<rfloor>,
              ''--save-txt'', tmpdir, cropped]
             @ (if args_braille a then [''--braille'', ''--dither''] else []))"
    by (simp add: ascii_cmd_positive[OF nz] floor_divide_of_int_eq)
next
  assume h: "commands (main w a) = [c1, c2] \<and> canvas_size a = Inr (canvas_w, canvas_h) \<and>
    truetype w (args_font a) (args_size a) = Inr font \<and>
    textbbox w font = (x0, y0, x1, y1) \<and> 0 < x1 - x0 \<and> 0 < y1 - y0"
  then have nz: "x1 - x0 \<noteq> 0" "y1 - y0 \<noteq> 0" by simp_all
  from h main_converter_command[of w a c1 c2]
  have "ascii_cmd a canvas_w canvas_h (x1 - x0) (y1 - y0) (mkdtemp w)
          (path_str w (joinpath w (Path w (mkdtemp w)) ''cropped'')) = Inr c2"
    by auto
  then show "c2 = [''ascii-image-converter'', ''--only-save'', ''--dimensions'',
            str_int \<lfloor>real_of_int canvas_w / real_of_int (x1 - x0)\<rfloor> @ '','' @
            str_int \<lfloor>real_of_int canvas_h / real_of_int (y1 - y0)\<rfloor>,
            ''--save-txt'', mkdtemp w,
            path_str w (joinpath w (Path w (mkdtemp w)) ''cropped'')]
           @ (if args_braille a then [''--braille'', ''--dither''] else [])"
    unfolding ascii_cmd_positive[OF nz] floor_divide_of_int_eq by simp
next
  show "grid_dimensions 100 50 20 25 = Inr (5, 2)"
    by (simp add: grid_dimensions_def floordiv_def)
qed

theorem grid_size_passed_to_converter_witness:
  "canvas_size sample_args = Inr (100, 50) \<and>
   textbbox sample_world 12 = (0, 0, 20, 25) \<and>
   commands (main sample_world sample_args) ! 1 =
     [''ascii-image-converter'', ''--only-save'', ''--dimensions'', ''5,2'',
      ''--save-txt'', ''/tmp/t'', ''/tmp/t/cropped''] \<and>
   ascii_cmd sample_args 100 50 20 25 ''/tmp/t'' ''/tmp/t/cropped'' =
     Inr [''ascii-image-converter'', ''--only-save'', ''--dimensions'', ''5,2'',
          ''--save-txt'', ''/tmp/t'', ''/tmp/t/cropped'']"
proof -
  have c: "commands (main sample_world sample_args) =
             [resize_cmd sample_args 100 50 ''/tmp/t/cropped'',
              commands (main sample_world sample_args) ! 1]"
    by (simp add: run_defs sample_world_def sample_args_def)
  have f: "\<lfloor>real_of_int 100 / real_of_int 20\<rfloor> = (5::int)"
          "\<lfloor>real_of_int 50 / real_of_int 25\<rfloor> = (2::int)"
    by simp_all
  have s: "str_int 5 = ''5''" "str_int 2 = ''2''"
    by (simp_all add: str_int_def str_nat.simps)
  have b: "canvas_size sample_args = Inr (100, 50)"
          "truetype sample_world (args_font sample_args) (args_size sample_args) = Inr 12"
          "textbbox sample_world 12 = (0, 0, 20, 25)"
          "mkdtemp sample_world = ''/tmp/t''"
          "path_str sample_world (joinpath sample_world (Path sample_world ''/tmp/t'') ''cropped'')
             = ''/tmp/t/cropped''"
          "\<not> args_braille sample_args"
    by (simp_all add: canvas_size_def sample_world_def sample_args_def)
  show ?thesis
    using grid_size_passed_to_converter[where char_w = 20 and char_h = 25 and canvas_w = 100
        and canvas_h = 50 and a = sample_args and tmpdir = "''/tmp/t''"
        and cropped = "''/tmp/t/cropped''" and w = sample_world
        and ?c1.0 = "resize_cmd sample_args 100 50 ''/tmp/t/cropped''"
        and ?c2.0 = "commands (main sample_world sample_args) ! 1" and font = 12
        and ?x0.0 = 0 and ?y0.0 = 0 and ?x1.0 = 20 and ?y1.0 = 25] c
    by (simp add: b f s)
qed


text \<open>
  C3, as the code has it. There is no check of the grid size: with positive cell
  dimensions grid fitting never fails, and a run that has measured such a cell goes on
  to the external commands with the floor quotients after \<^verbatim>\<open>--dimensions\<close>, also when one of
  them is 0 (a canvas from 0 up to less than one cell in that axis); what becomes of such
  a run is then the converter's decision. For a canvas at least as large as one cell in
  each axis, neither grid dimension is 0.
\<close>

theorem grid_never_rejected:
  "(0 < char_w \<and> 0 < char_h \<longrightarrow>
      grid_dimensions canvas_w canvas_h char_w char_h =
        Inr (canvas_w div char_w, canvas_h div char_h) \<and>
      (char_w \<le> canvas_w \<and> char_h \<le> canvas_h \<longrightarrow>
         1 \<le> canvas_w div char_w \<and> 1 \<le> canvas_h div char_h) \<and>
      (0 \<le> canvas_w \<and> canvas_w < char_w \<longrightarrow> canvas_w div char_w = 0) \<and>
      (0 \<le> canvas_h \<and> canvas_h < char_h \<longrightarrow> canvas_h div char_h = 0)) \<and>
   (\<not> (path_exists w out \<and> is_dir w out) \<and>
    truetype w (args_font a) (args_size a) = Inr font \<and>
    image_new w (canvas_w, canvas_h) (args_bg a) = None \<and>
    textbbox w font = (x0, y0, x1, y1) \<and> 0 < x1 - x0 \<and> 0 < y1 - y0 \<longrightarrow>
      render w a canvas_w canvas_h out r =
        convert_and_draw w a (y1 - y0) font out
          (resize_cmd a canvas_w canvas_h
             (path_str w (joinpath w (Path w (mkdtemp w)) ''cropped'')))
          ([''ascii-image-converter'', ''--only-save'', ''--dimensions'',
            str_int (canvas_w div (x1 - x0)) @ '','' @ str_int (canvas_h div (y1 - y0)),
            ''--save-txt'', mkdtemp w,
            path_str w (joinpath w (Path w (mkdtemp w)) ''cropped'')]
           @ (if args_braille a then [''--braille'', ''--dither''] else []))
          r)"
proof (intro conjI impI)
  assume p: "0 < char_w \<and> 0 < char_h"
  then show "grid_dimensions canvas_w canvas_h char_w char_h =
        Inr (canvas_w div char_w, canvas_h div char_h)"
    by (simp add: grid_dimensions_positive)
  {
    assume "char_w \<le> canvas_w \<and> char_h \<le> canvas_h"
    then have "0 < canvas_w div char_w" "0 < canvas_h div char_h"
      using p by (simp_all add: pos_imp_zdiv_pos_iff)
    then show "1 \<le> canvas_w div char_w" "1 \<le> canvas_h div char_h"
      by simp_all
  }
  {
    assume "0 \<le> canvas_w \<and> canvas_w < char_w"
    then show "canvas_w div char_w = 0" by (simp add: div_pos_pos_trivial)
  }
  {
    assume "0 \<le> canvas_h \<and> canvas_h < char_h"
    then show "canvas_h div char_h = 0" by (simp add: div_pos_pos_trivial)
  }
next
  assume h: "\<not> (path_exists w out \<and> is_dir w out) \<and>
    truetype w (args_font a) (args_size a) = Inr font \<and>
    image_new w (canvas_w, canvas_h) (args_bg a) = None \<and>
    textbbox w font = (x0, y0, x1, y1) \<and> 0 < x1 - x0 \<and> 0 < y1 - y0"
  then have nz: "x1 - x0 \<noteq> 0" "y1 - y0 \<noteq> 0" by simp_all
  have m: "render w a canvas_w canvas_h out r =
           (case ascii_cmd a canvas_w canvas_h (x1 - x0) (y1 - y0) (mkdtemp w)
                   (path_str w (joinpath w (Path w (mkdtemp w)) ''cropped'')) of
              Inl e \<Rightarrow> uncaught e r
            | Inr ascii \<Rightarrow>
                convert_and_draw w a (y1 - y0) font out
                  (resize_cmd a canvas_w canvas_h
                     (path_str w (joinpath w (Path w (mkdtemp w)) ''cropped'')))
                  ascii r)"
    using h by (intro render_measured) simp_all
  show "render w a canvas_w canvas_h out r =
        convert_and_draw w a (y1 - y0) font out
          (resize_cmd a canvas_w canvas_h
             (path_str w (joinpath w (Path w (mkdtemp w)) ''cropped'')))
          ([''ascii-image-converter'', ''--only-save'', ''--dimensions'',
            str_int (canvas_w div (x1 - x0)) @ '','' @ str_int (canvas_h div (y1 - y0)),
            ''--save-txt'', mkdtemp w,
            path_str w (joinpath w (Path w (mkdtemp w)) ''cropped'')]
           @ (if args_braille a then [''--braille'', ''--dither''] else []))
          r"
    unfolding m ascii_cmd_positive[OF nz] by simp
qed

theorem grid_never_rejected_witness:
  "(0::int) < 20 \<and> (0::int) < 25 \<and> grid_dimensions 10 60 20 25 = Inr (0, 2) \<and>
   grid_dimensions 100 50 20 25 = Inr (5, 2) \<and>
   status (render sample_world sample_args 10 10 ''out.png'' start) = Exit 0 \<and>
   commands (render sample_world sample_args 10 10 ''out.png'' start) ! 1 ! 3 = ''0,0''"
proof -
  have b: "\<not> (path_exists sample_world ''out.png'' \<and> is_dir sample_world ''out.png'')"
          "truetype sample_world (args_font sample_args) (args_size sample_args) = Inr 12"
          "image_new sample_world (10, 10) (args_bg sample_args) = None"
          "textbbox sample_world 12 = (0, 0, 20, 25)"
    by (simp_all add: sample_world_def sample_args_def)
  have g: "grid_dimensions 10 60 20 25 = Inr (0, 2)"
    using grid_never_rejected[where char_w = 20 and char_h = 25 and canvas_w = 10
        and canvas_h = 60 and w = sample_world and a = sample_args and out = "''out.png''"
        and font = 12 and ?x0.0 = 0 and ?y0.0 = 0 and ?x1.0 = 20 and ?y1.0 = 25]
    by simp
  have r: "render sample_world sample_args 10 10 ''out.png'' start =
        convert_and_draw sample_world sample_args (25 - 0) 12 ''out.png''
          (resize_cmd sample_args 10 10
             (path_str sample_world
                (joinpath sample_world (Path sample_world (mkdtemp sample_world)) ''cropped'')))
          ([''ascii-image-converter'', ''--only-save'', ''--dimensions'',
            str_int (10 div (20 - 0)) @ '','' @ str_int (10 div (25 - 0)),
            ''--save-txt'', mkdtemp sample_world,
            path_str sample_world
              (joinpath sample_world (Path sample_world (mkdtemp sample_world)) ''cropped'')]
           @ (if args_braille sample_args then [''--braille'', ''--dither''] else []))
          start"
    using grid_never_rejected[where char_w = 20 and char_h = 25 and canvas_w = 10
        and canvas_h = 10 and w = sample_world and a = sample_args and out = "''out.png''"
        and font = 12 and ?x0.0 = 0 and ?y0.0 = 0 and ?x1.0 = 20 and ?y1.0 = 25
        and r = start] b
    by simp
  have "status (render sample_world sample_args 10 10 ''out.png'' start) = Exit 0"
    unfolding r
    by (simp add: run_defs sample_world_def sample_args_def)
  moreover have "commands (render sample_world sample_args 10 10 ''out.png'' start) ! 1 ! 3
      = ''0,0''"
    unfolding r
    by (simp add: run_defs sample_world_def sample_args_def str_int_def str_nat.simps)
  moreover have "grid_dimensions 100 50 20 25 = Inr (5, 2)"
    by (simp add: grid_dimensions_def floordiv_def)
  ultimately show ?thesis using g by simp
qed

text \<open>The claim as stated fails: a canvas of 10x10 is smaller than the cell of 20x25, the
  grid is 0 by 0, and the run passes it to the converter and goes on to save the
  image.\<close>

theorem canvas_too_small_counterexample:
  "args_resolution (sample_args\<lparr>args_resolution := Some (10, 10)\<rparr>) = Some (10, 10) \<and>
   textbbox sample_world 12 = (0, 0, 20, 25) \<and>
   grid_dimensions 10 10 20 25 = Inr (0, 0) \<and>
   commands (main sample_world (sample_args\<lparr>args_resolution := Some (10, 10)\<rparr>)) ! 1 =
     [''ascii-image-converter'', ''--only-save'', ''--dimensions'', ''0,0'',
      ''--save-txt'', ''/tmp/t'', ''/tmp/t/cropped''] \<and>
   stderr (main sample_world (sample_args\<lparr>args_resolution := Some (10, 10)\<rparr>)) = [] \<and>
   status (main sample_world (sample_args\<lparr>args_resolution := Some (10, 10)\<rparr>)) = Exit 0"
  by (simp add: run_defs sample_world_def sample_args_def str_int_def str_nat.simps)


text \<open>
  C4, as the code has it. The measured cell size is not validated. Grid fitting raises
  ZeroDivisionError exactly when the cell width or the cell height is 0, and a run that
  has measured such a cell ends there with that exception uncaught: nothing is printed
  and no command is started. When both are at least 1 the two floor divisions are
  performed, with non-zero divisors.
\<close>

theorem zero_cell_not_validated:
  "(grid_dimensions canvas_w canvas_h char_w char_h = Inl ZeroDivisionError \<longleftrightarrow>
      char_w = 0 \<or> char_h = 0) \<and>
   (1 \<le> char_w \<and> 1 \<le> char_h \<longrightarrow>
      grid_dimensions canvas_w canvas_h char_w char_h =
        Inr (canvas_w div char_w, canvas_h div char_h)) \<and>
   (\<not> (path_exists w out \<and> is_dir w out) \<and>
    truetype w (args_font a) (args_size a) = Inr font \<and>
    image_new w (canvas_w, canvas_h) (args_bg a) = None \<and>
    textbbox w font = (x0, y0, x1, y1) \<and> (x1 - x0 = 0 \<or> y1 - y0 = 0) \<longrightarrow>
      render w a canvas_w canvas_h out r = uncaught ZeroDivisionError r \<and>
      stderr (render w a canvas_w canvas_h out r) = stderr r \<and>
      commands (render w a canvas_w canvas_h out r) = commands r)"
proof (intro conjI impI)
  show "grid_dimensions canvas_w canvas_h char_w char_h = Inl ZeroDivisionError \<longleftrightarrow>
      char_w = 0 \<or> char_h = 0"
    by (auto simp: grid_dimensions_def floordiv_def)
next
  assume "1 \<le> char_w \<and> 1 \<le> char_h"
  then show "grid_dimensions canvas_w canvas_h char_w char_h =
        Inr (canvas_w div char_w, canvas_h div char_h)"
    by (intro grid_dimensions_positive) simp_all
next
  assume h: "\<not> (path_exists w out \<and> is_dir w out) \<and>
    truetype w (args_font a) (args_size a) = Inr font \<and>
    image_new w (canvas_w, canvas_h) (args_bg a) = None \<and>
    textbbox w font = (x0, y0, x1, y1) \<and> (x1 - x0 = 0 \<or> y1 - y0 = 0)"
  have m: "render w a canvas_w canvas_h out r =
           (case ascii_cmd a canvas_w canvas_h (x1 - x0) (y1 - y0) (mkdtemp w)
                   (path_str w (joinpath w (Path w (mkdtemp w)) ''cropped'')) of
              Inl e \<Rightarrow> uncaught e r
            | Inr ascii \<Rightarrow>
                convert_and_draw w a (y1 - y0) font out
                  (resize_cmd a canvas_w canvas_h
                     (path_str w (joinpath w (Path w (mkdtemp w)) ''cropped'')))
                  ascii r)"
    using h by (intro render_measured) simp_all
  have z: "ascii_cmd a canvas_w canvas_h (x1 - x0) (y1 - y0) (mkdtemp w)
             (path_str w (joinpath w (Path w (mkdtemp w)) ''cropped'')) = Inl ZeroDivisionError"
    using h by (auto simp: ascii_cmd_def grid_dimensions_def floordiv_def)
  show u: "render w a canvas_w canvas_h out r = uncaught ZeroDivisionError r"
    unfolding m z by simp
  show "stderr (render w a canvas_w canvas_h out r) = stderr r"
    unfolding u by (simp add: uncaught_simps)
  show "commands (render w a canvas_w canvas_h out r) = commands r"
    unfolding u by (simp add: uncaught_simps)
qed

theorem zero_cell_not_validated_witness:
  "textbbox (sample_world\<lparr>textbbox := (\<lambda>f. (3, 0, 3, 25))\<rparr>) 12 = (3, 0, 3, 25) \<and>
   render (sample_world\<lparr>textbbox := (\<lambda>f. (3, 0, 3, 25))\<rparr>) sample_args 100 50 ''out.png'' start
     = uncaught ZeroDivisionError start \<and>
   (1::int) \<le> 20 \<and> (1::int) \<le> 25 \<and> grid_dimensions 100 50 20 25 = Inr (5, 2)"
proof -
  have "grid_dimensions 100 50 20 25 = Inr (100 div 20, 50 div 25)"
    using zero_cell_not_validated[where char_w = 20 and char_h = 25 and canvas_w = 100
        and canvas_h = 50 and w = sample_world and a = sample_args and out = "''out.png''"
        and font = 12 and ?x0.0 = 0 and ?y0.0 = 0 and ?x1.0 = 20 and ?y1.0 = 25]
    by simp
  moreover have "render (sample_world\<lparr>textbbox := (\<lambda>f. (3, 0, 3, 25))\<rparr>) sample_args 100 50
                   ''out.png'' start = uncaught ZeroDivisionError start"
    using zero_cell_not_validated[where w = "sample_world\<lparr>textbbox := (\<lambda>f. (3, 0, 3, 25))\<rparr>"
        and a = sample_args and out = "''out.png''" and font = 12 and canvas_w = 100
        and canvas_h = 50 and ?x0.0 = 3 and ?y0.0 = 0 and ?x1.0 = 3 and ?y1.0 = 25
        and r = start]
    by (simp add: sample_world_def sample_args_def)
  ultimately show ?thesis by (simp add: sample_world_def)
qed

text \<open>The claim as stated fails: a reference glyph measured 0 pixels wide reaches the
  division, and the run ends with the uncaught ZeroDivisionError.\<close>

theorem zero_width_glyph_counterexample:
  "textbbox (sample_world\<lparr>textbbox := (\<lambda>f. (0, 0, 0, 25))\<rparr>) 12 = (0, 0, 0, 25) \<and>
   floordiv 100 0 = Inl ZeroDivisionError \<and>
   status (main (sample_world\<lparr>textbbox := (\<lambda>f. (0, 0, 0, 25))\<rparr>) sample_args)
     = Uncaught ZeroDivisionError \<and>
   stderr (main (sample_world\<lparr>textbbox := (\<lambda>f. (0, 0, 0, 25))\<rparr>) sample_args) = [] \<and>
   commands (main (sample_world\<lparr>textbbox := (\<lambda>f. (0, 0, 0, 25))\<rparr>) sample_args) = []"
  by (simp add: run_defs sample_world_def sample_args_def)



end
